theory Spec2Isabelle
  imports Complex_Main "HOL-Library.Word" "HOL-Library.Multiset"
begin

section \<open>Data model\<close>

text \<open>
  The chat log entry and the connection status of \<^verbatim>\<open>types.ts\<close>. A JavaScript string is
  modelled as a \<open>string\<close>; the accented letters of the user-facing messages are written
  as their code units (\<open>CHR 0xEA\<close> and the like).
\<close>

datatype Role = User | Zulim

record Message =
  role :: Role
  msg_text :: string

datatype ConnectionStatus = DISCONNECTED | CONNECTING | CONNECTED | ERROR

text \<open>
  A Web Audio \<^verbatim>\<open>AudioBuffer\<close>: a number of sample frames at a sample rate. Its read-only
  attribute \<^verbatim>\<open>duration\<close> is the quotient of the two, in seconds. Times of the output
  clock and durations are JavaScript numbers; they are modelled as real numbers, so the
  rounding of double arithmetic is left out of the model.
\<close>

record AudioBuffer =
  buf_length :: nat
  buf_sampleRate :: nat

definition duration :: "AudioBuffer \<Rightarrow> real" where
  "duration b = real (buf_length b) / real (buf_sampleRate b)"

text \<open>
  A \<^verbatim>\<open>LiveServerMessage\<close>, as far as \<^verbatim>\<open>onmessage\<close> reads it. Every property the
  handler reaches through \<^verbatim>\<open>?.\<close>, and every property that may be missing, is an option:
  the server content, its model turn, the parts of the turn, the inline data of a part and
  its \<^verbatim>\<open>data\<close> string, the output transcription and its \<^verbatim>\<open>text\<close>.
\<close>

record Blob =
  blob_data :: "string option"

record Part =
  inlineData :: "Blob option"

record Content =
  parts :: "Part list option"

record Transcription =
  transcription_text :: "string option"

record LiveServerContent =
  modelTurn :: "Content option"
  outputTranscription :: "Transcription option"
  turnComplete :: bool
  interrupted :: bool

record LiveServerMessage =
  serverContent :: "LiveServerContent option"

text \<open>A JavaScript exception value, as far as the code inspects it.\<close>

record JsError =
  err_name :: string
  err_message :: "string option"

text \<open>
  How a handler can end other than by returning: the TypeError of reading a property of
  \<^verbatim>\<open>undefined\<close> or of reducing an empty array, and the rejection of the decoding of an
  audio payload.
\<close>

datatype error = TypeError | DecodeError JsError

text \<open>
  One call of \<^verbatim>\<open>source.start(when)\<close>: the buffer source (a fresh object, identified by
  a number), the time it was given, and its buffer. The slot ends a duration later.
\<close>

record PlaybackSlot =
  slot_source :: nat
  scheduledStart :: real
  slot_buffer :: AudioBuffer

definition scheduledEnd :: "PlaybackSlot \<Rightarrow> real" where
  "scheduledEnd s = scheduledStart s + duration (slot_buffer s)"

text \<open>
  The state of the component \<^verbatim>\<open>App\<close>.
  \<^item> Its \<^verbatim>\<open>useState\<close> cells, from \<open>messages\<close> to \<open>isMicEnabled\<close>, hold the latest
    value set.
  \<^item> \<open>renderedStatus\<close>, \<open>renderedInputText\<close> and \<open>renderedIsSpeaking\<close> are the values
    the last render saw: the panel on the screen is the one of \<open>renderedStatus\<close>, and the
    handlers and callbacks made by that render close over these values.
  \<^item> Its \<^verbatim>\<open>useRef\<close> cells, from \<open>audioContext\<close> to \<open>currentOutputTranscription\<close>; a
    reference to a browser object is modelled by whether it is set.
  \<^item> \<open>suspended\<close> holds the messages whose handler waits at
    \<^verbatim>\<open>await decodeAudioData(...)\<close>; \<open>armed\<close> holds the callbacks passed to
    \<^verbatim>\<open>requestAnimationFrame\<close> that wait for the next frame, each given by the value of
    \<^verbatim>\<open>isSpeaking\<close> it closes over.
  \<^item> The effects on the outside that the claims speak about: the \<^verbatim>\<open>start\<close> calls made
    (\<open>started\<close>), the sources on which \<^verbatim>\<open>stop\<close> was called (\<open>stopped\<close>), the texts
    handed to \<^verbatim>\<open>sendRealtimeInput\<close> (\<open>sent\<close>), and whether the microphone has been
    wired to the session (\<open>capturing\<close>). \<open>nextSource\<close> numbers the objects of
    \<^verbatim>\<open>createBufferSource\<close>.
\<close>

record App =
  messages :: "Message list"
  inputText :: string
  status :: ConnectionStatus
  isSpeaking :: bool
  audioVolume :: real
  errorMessage :: "string option"
  isMicEnabled :: bool
  renderedStatus :: ConnectionStatus
  renderedInputText :: string
  renderedIsSpeaking :: bool
  audioContext :: bool
  outputAudioContext :: bool
  analyser :: bool
  sessionRef :: bool
  sources :: "nat set"
  nextStartTime :: real
  currentOutputTranscription :: string
  suspended :: "LiveServerMessage multiset"
  armed :: "bool list"
  started :: "PlaybackSlot list"
  stopped :: "nat set"
  sent :: "string list"
  capturing :: bool
  nextSource :: nat

definition App_init :: App where
  "App_init =
     \<lparr>messages = [], inputText = [], status = DISCONNECTED, isSpeaking = False,
      audioVolume = 0, errorMessage = None, isMicEnabled = True,
      renderedStatus = DISCONNECTED, renderedInputText = [], renderedIsSpeaking = False,
      audioContext = False, outputAudioContext = False, analyser = False,
      sessionRef = False, sources = {}, nextStartTime = 0,
      currentOutputTranscription = [], suspended = {#}, armed = [],
      started = [], stopped = {}, sent = [], capturing = False, nextSource = 0\<rparr>"

section \<open>Audio set-up and the amplitude analyser\<close>

definition initializeAudio :: "App \<Rightarrow> App" where
  "initializeAudio st =
     (let st1 = (if \<not> audioContext st then st\<lparr>audioContext := True\<rparr> else st)
      in if \<not> outputAudioContext st1
         then st1\<lparr>outputAudioContext := True, analyser := True\<rparr>
         else st1)"

text \<open>\<^verbatim>\<open>analyserRef.current.fftSize = 64\<close>; the analyser has half as many frequency bins.\<close>

definition fftSize :: nat where
  "fftSize = 64"

definition frequencyBinCount :: nat where
  "frequencyBinCount = fftSize div 2"

text \<open>
  \<^verbatim>\<open>dataArray.reduce((a, b) => a + b) / dataArray.length\<close> over the bytes that
  \<^verbatim>\<open>getByteFrequencyData\<close> wrote. \<^verbatim>\<open>reduce\<close> without an initial value throws a
  TypeError on an empty array.
\<close>

definition average :: "8 word list \<Rightarrow> error + real" where
  "average dataArray =
     (case dataArray of
        [] \<Rightarrow> Inl TypeError
      | a # bs \<Rightarrow> Inr (real (foldl (\<lambda>a b. a + unat b) (unat a) bs) / real (length dataArray)))"

text \<open>
  \<^verbatim>\<open>updateLipSync\<close>. Its first argument is the value of \<^verbatim>\<open>isSpeaking\<close> that the callback
  closes over (the \<^verbatim>\<open>useCallback\<close> dependency), its second the bytes the analyser
  delivers. The result is the new state and whether the callback passed itself to
  \<^verbatim>\<open>requestAnimationFrame\<close>.
\<close>

definition updateLipSync :: "bool \<Rightarrow> 8 word list \<Rightarrow> App \<Rightarrow> error + (App \<times> bool)" where
  "updateLipSync speaking dataArray st =
     (if \<not> analyser st \<or> \<not> speaking then Inr (st\<lparr>audioVolume := 0\<rparr>, False)
      else case average dataArray of
             Inl e \<Rightarrow> Inl e
           | Inr avg \<Rightarrow> Inr (st\<lparr>audioVolume := min 1 (avg / 100)\<rparr>, True))"

text \<open>
  One call of the callback that closes over \<open>speaking\<close>: when it passes itself to
  \<^verbatim>\<open>requestAnimationFrame\<close>, the same callback, with the same value closed over, waits
  for the next frame. A call that throws changes nothing.
\<close>

definition callLipSync :: "bool \<Rightarrow> 8 word list \<Rightarrow> App \<Rightarrow> App" where
  "callLipSync speaking dataArray st =
     (case updateLipSync speaking dataArray st of
        Inl e \<Rightarrow> st
      | Inr r \<Rightarrow> if snd r then (fst r)\<lparr>armed := armed (fst r) @ [speaking]\<rparr> else fst r)"

text \<open>
  The effect with the dependencies \<^verbatim>\<open>[isSpeaking, updateLipSync]\<close>: it calls the
  \<^verbatim>\<open>updateLipSync\<close> of its render only while speaking.
\<close>

definition lipSyncEffect :: "8 word list \<Rightarrow> App \<Rightarrow> App" where
  "lipSyncEffect dataArray st =
     (if isSpeaking st then callLipSync (isSpeaking st) dataArray st else st)"

text \<open>
  A render: the new panel, handlers and callbacks see the latest state, and the effect
  runs when \<^verbatim>\<open>isSpeaking\<close> differs from the value of the render before
  (\<^verbatim>\<open>updateLipSync\<close> changes with it and only with it). \<open>dataArray\<close> is what the analyser
  delivers should the effect sample it.
\<close>

definition render :: "8 word list \<Rightarrow> App \<Rightarrow> App" where
  "render dataArray st =
     (let changed = (isSpeaking st \<noteq> renderedIsSpeaking st);
          st1 = st\<lparr>renderedStatus := status st, renderedInputText := inputText st,
                   renderedIsSpeaking := isSpeaking st\<rparr>
      in if changed then lipSyncEffect dataArray st1 else st1)"

text \<open>An animation frame: every waiting callback is called once, in the order it was armed.\<close>

definition animationFrame :: "8 word list \<Rightarrow> App \<Rightarrow> App" where
  "animationFrame dataArray st =
     foldl (\<lambda>s speaking. callLipSync speaking dataArray s) (st\<lparr>armed := []\<rparr>) (armed st)"

section \<open>Connecting\<close>

definition MIC_DENIED_MESSAGE :: string where
  "MIC_DENIED_MESSAGE =
     ''Acesso ao microfone negado pelo sistema. Voc'' @ [CHR 0xEA] @
     '' pode continuar apenas por texto.''"

definition CONNECTION_ERROR_MESSAGE :: string where
  "CONNECTION_ERROR_MESSAGE =
     ''Erro na conex'' @ [CHR 0xE3] @ ''o com a Zulim. Verifique sua internet.''"

definition CONNECTION_FAILED_MESSAGE :: string where
  "CONNECTION_FAILED_MESSAGE = ''Falha na conex'' @ [CHR 0xE3] @ ''o.''"

text \<open>\<^verbatim>\<open>String.prototype.includes\<close>.\<close>

fun str_includes :: "string \<Rightarrow> string \<Rightarrow> bool" where
  "str_includes [] sub = (sub = [])"
| "str_includes (c # s) sub = (take (length sub) (c # s) = sub \<or> str_includes s sub)"

text \<open>The test on \<^verbatim>\<open>micErr\<close> in the catch clause of the microphone request.\<close>

definition permissionDenied :: "JsError \<Rightarrow> bool" where
  "permissionDenied micErr =
     (err_name micErr = ''NotAllowedError'' \<or> err_name micErr = ''PermissionDeniedError'' \<or>
      (case err_message micErr of None \<Rightarrow> False | Some m \<Rightarrow> str_includes m ''denied''))"

text \<open>
  \<^verbatim>\<open>connectToZulim(forceNoMic)\<close> up to its call of \<^verbatim>\<open>ai.live.connect\<close>. The second
  argument is the outcome of \<^verbatim>\<open>getUserMedia\<close> (\<open>Inl\<close> the rejection), which is asked for
  only when \<open>forceNoMic\<close> is false. The result is the new state and, when
  \<^verbatim>\<open>ai.live.connect\<close> was called, whether the callbacks hold a microphone stream;
  \<open>None\<close> is the early \<^verbatim>\<open>return\<close>, after which no transport session exists. The
  key-selection dialog and \<^verbatim>\<open>initializeAudio\<close> are taken to return normally; the
  outer catch clause is \<open>connectFailed\<close> below.
\<close>

definition connectToZulim :: "bool \<Rightarrow> JsError + unit \<Rightarrow> App \<Rightarrow> App \<times> bool option" where
  "connectToZulim forceNoMic getUserMedia st =
     (let st1 = initializeAudio (st\<lparr>errorMessage := None, status := CONNECTING\<rparr>)
      in if \<not> forceNoMic then
           (case getUserMedia of
              Inr stream \<Rightarrow> (st1\<lparr>isMicEnabled := True\<rparr>, Some True)
            | Inl micErr \<Rightarrow>
                (let st2 = st1\<lparr>isMicEnabled := False\<rparr>
                 in if permissionDenied micErr
                    then (st2\<lparr>status := ERROR, errorMessage := Some MIC_DENIED_MESSAGE\<rparr>, None)
                    else (st2, Some False)))
         else (st1\<lparr>isMicEnabled := False\<rparr>, Some False))"

text \<open>\<^verbatim>\<open>sessionRef.current = await sessionPromise\<close> when the promise resolves.\<close>

definition sessionResolved :: "App \<Rightarrow> App" where
  "sessionResolved st = st\<lparr>sessionRef := True\<rparr>"

text \<open>The outer catch clause, with its default for a missing or empty \<^verbatim>\<open>err.message\<close>.\<close>

definition connectFailed :: "JsError \<Rightarrow> App \<Rightarrow> App" where
  "connectFailed err st =
     st\<lparr>status := ERROR,
        errorMessage := Some (case err_message err of
                                None \<Rightarrow> CONNECTION_FAILED_MESSAGE
                              | Some m \<Rightarrow> if m = [] then CONNECTION_FAILED_MESSAGE else m)\<rparr>"

section \<open>The callbacks of the live session\<close>

text \<open>\<^verbatim>\<open>onopen\<close>; \<open>stream\<close> is the microphone stream the callback closes over.\<close>

definition onopen :: "bool \<Rightarrow> App \<Rightarrow> App" where
  "onopen stream st =
     (let st1 = st\<lparr>status := CONNECTED\<rparr>
      in if stream \<and> audioContext st1 then st1\<lparr>capturing := True\<rparr> else st1)"

text \<open>
  The first line of \<^verbatim>\<open>onmessage\<close>:
  \<^verbatim>\<open>message.serverContent?.modelTurn?.parts[0]?.inlineData?.data\<close>. A model turn without
  \<^verbatim>\<open>parts\<close> makes \<^verbatim>\<open>parts[0]\<close> throw a TypeError; every other missing link gives
  \<^verbatim>\<open>undefined\<close>, here \<open>None\<close>.
\<close>

definition base64Audio :: "LiveServerMessage \<Rightarrow> error + string option" where
  "base64Audio message =
     (case serverContent message of
        None \<Rightarrow> Inr None
      | Some sc \<Rightarrow>
          (case modelTurn sc of
             None \<Rightarrow> Inr None
           | Some turn \<Rightarrow>
               (case parts turn of
                  None \<Rightarrow> Inl TypeError
                | Some ps \<Rightarrow>
                    (case ps of
                       [] \<Rightarrow> Inr None
                     | p # rest \<Rightarrow>
                         (case inlineData p of
                            None \<Rightarrow> Inr None
                          | Some blob \<Rightarrow> Inr (blob_data blob))))))"

text \<open>A value of the first line is truthy when it is a non-empty string.\<close>

definition truthy :: "string option \<Rightarrow> bool" where
  "truthy a = (case a of None \<Rightarrow> False | Some s \<Rightarrow> s \<noteq> [])"

text \<open>\<^verbatim>\<open>message.serverContent?.outputTranscription\<close> and the two flags read the same way.\<close>

definition outputTranscriptionOf :: "LiveServerMessage \<Rightarrow> Transcription option" where
  "outputTranscriptionOf message =
     (case serverContent message of None \<Rightarrow> None | Some sc \<Rightarrow> outputTranscription sc)"

definition turnCompleteOf :: "LiveServerMessage \<Rightarrow> bool" where
  "turnCompleteOf message =
     (case serverContent message of None \<Rightarrow> False | Some sc \<Rightarrow> turnComplete sc)"

definition interruptedOf :: "LiveServerMessage \<Rightarrow> bool" where
  "interruptedOf message =
     (case serverContent message of None \<Rightarrow> False | Some sc \<Rightarrow> interrupted sc)"

text \<open>
  The transcription branch: the test is on the transcription object, and what is appended
  is its \<^verbatim>\<open>text\<close>; \<^verbatim>\<open>+=\<close> turns a missing text into the nine letters
  \<^verbatim>\<open>undefined\<close>.
\<close>

definition transcriptionBranch :: "LiveServerMessage \<Rightarrow> App \<Rightarrow> App" where
  "transcriptionBranch m st =
     (case outputTranscriptionOf m of
        None \<Rightarrow> st
      | Some transcription \<Rightarrow>
          st\<lparr>currentOutputTranscription := currentOutputTranscription st @
               (case transcription_text transcription of
                  None \<Rightarrow> ''undefined''
                | Some t \<Rightarrow> t)\<rparr>)"

definition turnCompleteBranch :: "LiveServerMessage \<Rightarrow> App \<Rightarrow> App" where
  "turnCompleteBranch m st =
     (if turnCompleteOf m then
        (let fullText = currentOutputTranscription st;
             st1 = (if fullText \<noteq> []
                    then st\<lparr>messages := messages st @ [\<lparr>role = Zulim, msg_text = fullText\<rparr>]\<rparr>
                    else st)
         in st1\<lparr>currentOutputTranscription := []\<rparr>)
      else st)"

definition interruptedBranch :: "LiveServerMessage \<Rightarrow> App \<Rightarrow> App" where
  "interruptedBranch m st =
     (if interruptedOf m then
        st\<lparr>stopped := stopped st \<union> sources st, sources := {}, nextStartTime := 0,
           isSpeaking := False\<rparr>
      else st)"

text \<open>The three branches after the audio branch, in the order of the source.\<close>

definition laterBranches :: "LiveServerMessage \<Rightarrow> App \<Rightarrow> App" where
  "laterBranches m st = interruptedBranch m (turnCompleteBranch m (transcriptionBranch m st))"

text \<open>
  \<^verbatim>\<open>onmessage\<close> from its first line to where it first gives up control. \<open>now\<close> is the
  reading of \<^verbatim>\<open>ctx.currentTime\<close>. When the first line throws, the handler ends there
  (\<open>Inl\<close>) and has changed nothing. When the message has a playable payload and the output
  context exists, the handler sets \<^verbatim>\<open>isSpeaking\<close>, moves the playback clock up to the
  output clock and waits at \<^verbatim>\<open>await decodeAudioData(...)\<close>: the message joins
  \<open>suspended\<close>, and other handlers may run before \<open>ondecoded\<close> continues this one.
  Otherwise the handler runs through its three later branches at once.
\<close>

definition onmessage :: "LiveServerMessage \<Rightarrow> real \<Rightarrow> App \<Rightarrow> error + App" where
  "onmessage m now st =
     (case base64Audio m of
        Inl e \<Rightarrow> Inl e
      | Inr a \<Rightarrow>
          if truthy a \<and> outputAudioContext st then
            (let st1 = st\<lparr>isSpeaking := True\<rparr>;
                 st2 = st1\<lparr>nextStartTime := max (nextStartTime st1) now\<rparr>
             in Inr (st2\<lparr>suspended := add_mset m (suspended st2)\<rparr>))
          else Inr (laterBranches m st))"

text \<open>
  The rest of \<^verbatim>\<open>onmessage\<close> for a suspended message, from the moment the decoding
  settles. \<^verbatim>\<open>decode\<close> and \<^verbatim>\<open>decodeAudioData\<close> live in \<^verbatim>\<open>utils/audioUtils\<close>, which
  is not among the sources: their outcome is a parameter, \<open>Inr\<close> the decoded buffer and
  \<open>Inl\<close> the exception when either of them fails. On a failure the handler ends there,
  with what it did before the \<^verbatim>\<open>await\<close> left in place; on a buffer it creates the
  source, starts it at the playback clock, advances the clock by the duration, adds the
  source to the active set, and runs through the three later branches.
\<close>

definition ondecoded :: "LiveServerMessage \<Rightarrow> JsError + AudioBuffer \<Rightarrow> App \<Rightarrow> error + App" where
  "ondecoded m outcome st =
     (case outcome of
        Inl e \<Rightarrow> Inl (DecodeError e)
      | Inr audioBuffer \<Rightarrow>
          (let source = nextSource st;
               st3 = st\<lparr>nextSource := Suc source\<rparr>;
               st4 = st3\<lparr>started := started st3 @
                       [\<lparr>slot_source = source, scheduledStart = nextStartTime st3,
                         slot_buffer = audioBuffer\<rparr>]\<rparr>;
               st5 = st4\<lparr>nextStartTime := nextStartTime st4 + duration audioBuffer\<rparr>;
               st6 = st5\<lparr>sources := insert source (sources st5)\<rparr>
           in Inr (laterBranches m st6)))"

text \<open>The state a handler leaves: the one it returns, or the one it threw in.\<close>

definition afterHandler :: "App \<Rightarrow> error + App \<Rightarrow> App" where
  "afterHandler st r = (case r of Inl e \<Rightarrow> st | Inr st' \<Rightarrow> st')"

text \<open>The listener for \<^verbatim>\<open>ended\<close> that the audio branch adds to each source.\<close>

definition onended :: "nat \<Rightarrow> App \<Rightarrow> App" where
  "onended source st =
     (let st1 = st\<lparr>sources := sources st - {source}\<rparr>
      in if sources st1 = {} then st1\<lparr>isSpeaking := False\<rparr> else st1)"

text \<open>\<^verbatim>\<open>onerror\<close> (opening the key dialog does not touch the state) and \<^verbatim>\<open>onclose\<close>.\<close>

definition onerror :: "JsError \<Rightarrow> App \<Rightarrow> App" where
  "onerror e st = st\<lparr>status := ERROR, errorMessage := Some CONNECTION_ERROR_MESSAGE\<rparr>"

definition onclose :: "App \<Rightarrow> App" where
  "onclose st = st\<lparr>status := DISCONNECTED\<rparr>"

section \<open>Sending text\<close>

text \<open>
  \<^verbatim>\<open>String.prototype.trim\<close> on the white space among the code units below 256: tab, line
  feed, vertical tab, form feed, carriage return, space and no-break space.
\<close>

definition isWhiteSpace :: "char \<Rightarrow> bool" where
  "isWhiteSpace c = (c \<in> {CHR 0x09, CHR 0x0A, CHR 0x0B, CHR 0x0C, CHR 0x0D, CHR 0x20, CHR 0xA0})"

definition trim :: "string \<Rightarrow> string" where
  "trim s = rev (dropWhile isWhiteSpace (rev (dropWhile isWhiteSpace s)))"

text \<open>
  \<^verbatim>\<open>handleSendText\<close>. The \<^verbatim>\<open>inputText\<close> it reads is the one its render saw;
  \<^verbatim>\<open>sessionRef.current\<close> is read when it runs.
\<close>

definition handleSendText :: "App \<Rightarrow> App" where
  "handleSendText st =
     (if trim (renderedInputText st) = [] \<or> \<not> sessionRef st then st
      else (let userMsg = trim (renderedInputText st)
            in st\<lparr>messages := messages st @ [\<lparr>role = User, msg_text = userMsg\<rparr>],
                  inputText := [],
                  sent := sent st @ [userMsg]\<rparr>))"

section \<open>The component as a transition system\<close>

text \<open>
  Everything that can happen to the component, one event per handler, callback or
  continuation. \<open>Decoded m outcome\<close> is the decoding awaited by the handler of \<open>m\<close>
  settling; \<open>Render\<close> is React committing a render, with the bytes the analyser
  delivers should the effect sample it; \<open>Frame\<close> is an animation frame. A render may
  come at any time after the state has changed: right after a handler of the form, or
  later, as after a callback of the transport.
\<close>

datatype event =
    Connect bool "JsError + unit"
  | Resolved
  | Rejected JsError
  | Open bool
  | Msg LiveServerMessage real
  | Decoded LiveServerMessage "JsError + AudioBuffer"
  | Err JsError
  | Close
  | Ended nat
  | Input string
  | Submit
  | Render "8 word list"
  | Frame "8 word list"

text \<open>
  When an event can happen. The two connect buttons are on the panel of
  \<open>DISCONNECTED\<close>, and the button that continues by text on the panel of \<open>ERROR\<close>; the
  form with its input field is on the panel of \<open>CONNECTED\<close> only; a decoding settles
  only for a handler that waits for it; a source ends only once it has been created. The
  callbacks of the transport are not restricted. Reloading the page, which starts the
  component afresh, is not an event.
\<close>

fun enabled :: "event \<Rightarrow> App \<Rightarrow> bool" where
  "enabled (Connect forceNoMic getUserMedia) st =
     (renderedStatus st = DISCONNECTED \<or> (forceNoMic \<and> renderedStatus st = ERROR))"
| "enabled (Decoded m outcome) st = (m \<in># suspended st)"
| "enabled (Ended source) st = (source < nextSource st)"
| "enabled (Input s) st = (renderedStatus st = CONNECTED)"
| "enabled Submit st = (renderedStatus st = CONNECTED)"
| "enabled e st = True"

fun effect :: "event \<Rightarrow> App \<Rightarrow> App" where
  "effect (Connect forceNoMic getUserMedia) st = fst (connectToZulim forceNoMic getUserMedia st)"
| "effect Resolved st = sessionResolved st"
| "effect (Rejected err) st = connectFailed err st"
| "effect (Open stream) st = onopen stream st"
| "effect (Msg m now) st = afterHandler st (onmessage m now st)"
| "effect (Decoded m outcome) st =
     afterHandler (st\<lparr>suspended := suspended st - {#m#}\<rparr>)
       (ondecoded m outcome (st\<lparr>suspended := suspended st - {#m#}\<rparr>))"
| "effect (Err e) st = onerror e st"
| "effect Close st = onclose st"
| "effect (Ended source) st = onended source st"
| "effect (Input s) st = st\<lparr>inputText := s\<rparr>"
| "effect Submit st = handleSendText st"
| "effect (Render dataArray) st = render dataArray st"
| "effect (Frame dataArray) st = animationFrame dataArray st"

text \<open>An event that cannot happen changes nothing.\<close>

definition step :: "event \<Rightarrow> App \<Rightarrow> App" where
  "step e st = (if enabled e st then effect e st else st)"

fun run :: "event list \<Rightarrow> App \<Rightarrow> App" where
  "run [] st = st"
| "run (e # es) st = run es (step e st)"

text \<open>A sequence of events each of which can happen when its turn comes.\<close>

fun feasible :: "event list \<Rightarrow> App \<Rightarrow> bool" where
  "feasible [] st = True"
| "feasible (e # es) st = (enabled e st \<and> feasible es (step e st))"

text \<open>The messages of the transport that carry one part each.\<close>

definition audioChunk :: "string \<Rightarrow> LiveServerMessage" where
  "audioChunk payload =
     \<lparr>serverContent = Some
        \<lparr>modelTurn = Some \<lparr>parts = Some [\<lparr>inlineData = Some \<lparr>blob_data = Some payload\<rparr>\<rparr>]\<rparr>,
         outputTranscription = None, turnComplete = False, interrupted = False\<rparr>\<rparr>"

definition transcriptDelta :: "string option \<Rightarrow> LiveServerMessage" where
  "transcriptDelta t =
     \<lparr>serverContent = Some
        \<lparr>modelTurn = None, outputTranscription = Some \<lparr>transcription_text = t\<rparr>,
         turnComplete = False, interrupted = False\<rparr>\<rparr>"

definition turnCompleteEvent :: LiveServerMessage where
  "turnCompleteEvent =
     \<lparr>serverContent = Some
        \<lparr>modelTurn = None, outputTranscription = None, turnComplete = True,
         interrupted = False\<rparr>\<rparr>"

definition interruption :: LiveServerMessage where
  "interruption =
     \<lparr>serverContent = Some
        \<lparr>modelTurn = None, outputTranscription = None, turnComplete = False,
         interrupted = True\<rparr>\<rparr>"

text \<open>
  An audio chunk handled from its arrival to the end of its handler with nothing in
  between: the message with its payload arrives at a reading of the output clock, and its
  decoding delivers a buffer. A chunk is given as payload, buffer and clock reading.
\<close>

definition chunkEvents :: "string \<times> AudioBuffer \<times> real \<Rightarrow> event list" where
  "chunkEvents c =
     [Msg (audioChunk (fst c)) (snd (snd c)), Decoded (audioChunk (fst c)) (Inr (fst (snd c)))]"

definition chunks :: "(string \<times> AudioBuffer \<times> real) list \<Rightarrow> event list" where
  "chunks cs = concat (map chunkEvents cs)"

definition deltas :: "(string \<times> real) list \<Rightarrow> event list" where
  "deltas ds = map (\<lambda>d. Msg (transcriptDelta (Some (fst d))) (snd d)) ds"

text \<open>The slots scheduled between two states of one run.\<close>

definition newSlots :: "App \<Rightarrow> App \<Rightarrow> PlaybackSlot list" where
  "newSlots st st' = drop (length (started st)) (started st')"

text \<open>
  An event whose message carries \<^verbatim>\<open>interrupted\<close>, and an event that runs the
  interruption branch in a given state: a message that carries it, whose first line does
  not throw and whose handler does not wait for a decoding, or a decoding that delivers a
  buffer to the waiting handler of such a message.
\<close>

definition isInterruption :: "event \<Rightarrow> bool" where
  "isInterruption e =
     (case e of Msg m now \<Rightarrow> interruptedOf m | Decoded m outcome \<Rightarrow> interruptedOf m | _ \<Rightarrow> False)"

definition runsInterruption :: "event \<Rightarrow> App \<Rightarrow> bool" where
  "runsInterruption e st =
     (case e of
        Msg m now \<Rightarrow>
          interruptedOf m \<and>
          (case base64Audio m of
             Inl err \<Rightarrow> False
           | Inr a \<Rightarrow> (if truthy a \<and> outputAudioContext st then False else True))
      | Decoded m outcome \<Rightarrow>
          interruptedOf m \<and> m \<in># suspended st \<and>
          (case outcome of Inl err \<Rightarrow> False | Inr b \<Rightarrow> True)
      | _ \<Rightarrow> False)"

section \<open>Auxiliary facts\<close>

lemmas handler_defs =
  connectToZulim_def initializeAudio_def sessionResolved_def connectFailed_def onopen_def
  onerror_def onclose_def onended_def handleSendText_def

lemmas onmessage_defs =
  onmessage_def ondecoded_def afterHandler_def laterBranches_def transcriptionBranch_def
  turnCompleteBranch_def interruptedBranch_def base64Audio_def truthy_def
  outputTranscriptionOf_def turnCompleteOf_def interruptedOf_def

lemma duration_nonneg: "0 \<le> duration b"
  by (simp add: duration_def)

lemma run_append: "run (es @ es') st = run es' (run es st)"
  by (induction es arbitrary: st) simp_all

text \<open>
  Calling the lip-sync callback, an animation frame and a render change only the volume,
  the waiting callbacks and what the render saw.
\<close>

lemma callLipSync_shape:
  "\<exists>v a. callLipSync speaking dataArray st = st\<lparr>audioVolume := v, armed := a\<rparr>"
proof (cases "updateLipSync speaking dataArray st")
  case (Inl e)
  then have "callLipSync speaking dataArray st = st\<lparr>audioVolume := audioVolume st, armed := armed st\<rparr>"
    by (simp add: callLipSync_def)
  then show ?thesis by blast
next
  case (Inr r)
  then obtain v where "fst r = st\<lparr>audioVolume := v\<rparr>"
    by (auto simp add: updateLipSync_def split: if_splits sum.splits)
  then have "callLipSync speaking dataArray st =
      st\<lparr>audioVolume := v, armed := (if snd r then armed st @ [speaking] else armed st)\<rparr>"
    using Inr by (simp add: callLipSync_def)
  then show ?thesis by blast
qed

lemma foldl_callLipSync_shape:
  "\<exists>v a. foldl (\<lambda>s speaking. callLipSync speaking dataArray s) st cs =
     st\<lparr>audioVolume := v, armed := a\<rparr>"
proof (induction cs arbitrary: st)
  case Nil
  have "foldl (\<lambda>s speaking. callLipSync speaking dataArray s) st [] =
      st\<lparr>audioVolume := audioVolume st, armed := armed st\<rparr>"
    by simp
  then show ?case by blast
next
  case (Cons c cs)
  obtain v a where 1: "callLipSync c dataArray st = st\<lparr>audioVolume := v, armed := a\<rparr>"
    using callLipSync_shape by blast
  obtain v' a' where 2: "foldl (\<lambda>s speaking. callLipSync speaking dataArray s)
      (st\<lparr>audioVolume := v, armed := a\<rparr>) cs =
      st\<lparr>audioVolume := v, armed := a\<rparr>\<lparr>audioVolume := v', armed := a'\<rparr>"
    using Cons.IH by blast
  have "foldl (\<lambda>s speaking. callLipSync speaking dataArray s) st (c # cs) =
      st\<lparr>audioVolume := v', armed := a'\<rparr>"
    by (simp add: 1 2)
  then show ?case by blast
qed

lemma animationFrame_shape:
  "\<exists>v a. animationFrame dataArray st = st\<lparr>audioVolume := v, armed := a\<rparr>"
proof -
  obtain v a where 1: "foldl (\<lambda>s speaking. callLipSync speaking dataArray s) (st\<lparr>armed := []\<rparr>) (armed st)
      = st\<lparr>armed := []\<rparr>\<lparr>audioVolume := v, armed := a\<rparr>"
    using foldl_callLipSync_shape by blast
  have "animationFrame dataArray st = st\<lparr>audioVolume := v, armed := a\<rparr>"
    by (simp add: animationFrame_def 1)
  then show ?thesis by blast
qed

lemma render_shape:
  "\<exists>v a. render dataArray st =
     st\<lparr>renderedStatus := status st, renderedInputText := inputText st,
        renderedIsSpeaking := isSpeaking st, audioVolume := v, armed := a\<rparr>"
proof -
  define st1 where "st1 = st\<lparr>renderedStatus := status st, renderedInputText := inputText st,
                   renderedIsSpeaking := isSpeaking st\<rparr>"
  have r: "render dataArray st =
      (if isSpeaking st \<noteq> renderedIsSpeaking st \<and> isSpeaking st
       then callLipSync True dataArray st1 else st1)"
    by (auto simp add: render_def lipSyncEffect_def Let_def st1_def)
  obtain v a where 1: "callLipSync True dataArray st1 = st1\<lparr>audioVolume := v, armed := a\<rparr>"
    using callLipSync_shape by blast
  have 2: "st1 = st1\<lparr>audioVolume := audioVolume st1, armed := armed st1\<rparr>"
    by simp
  have "\<exists>v a. render dataArray st = st1\<lparr>audioVolume := v, armed := a\<rparr>"
  proof (cases "isSpeaking st \<noteq> renderedIsSpeaking st \<and> isSpeaking st")
    case True
    then have "render dataArray st = callLipSync True dataArray st1"
      unfolding r by auto
    with 1 have "render dataArray st = st1\<lparr>audioVolume := v, armed := a\<rparr>"
      by simp
    then show ?thesis by (intro exI)
  next
    case False
    then have "render dataArray st = st1"
      unfolding r by auto
    with 2 have "render dataArray st = st1\<lparr>audioVolume := audioVolume st1, armed := armed st1\<rparr>"
      by simp
    then show ?thesis by (intro exI)
  qed
  then show ?thesis by (simp add: st1_def)
qed

lemma step_frame_lipsync:
  "nextStartTime (animationFrame d st) = nextStartTime st"
  "started (animationFrame d st) = started st"
  "nextStartTime (render d st) = nextStartTime st"
  "started (render d st) = started st"
proof -
  obtain v a where 1: "animationFrame d st = st\<lparr>audioVolume := v, armed := a\<rparr>"
    using animationFrame_shape by blast
  obtain v' a' where 2: "render d st =
     st\<lparr>renderedStatus := status st, renderedInputText := inputText st,
        renderedIsSpeaking := isSpeaking st, audioVolume := v', armed := a'\<rparr>"
    using render_shape by blast
  show "nextStartTime (animationFrame d st) = nextStartTime st"
    "started (animationFrame d st) = started st"
    by (simp_all add: 1)
  show "nextStartTime (render d st) = nextStartTime st"
    "started (render d st) = started st"
    by (simp_all add: 2)
qed







lemma foldl_unat: "foldl (\<lambda>a b. a + unat b) n bs = n + sum_list (map unat bs)"
  by (induction bs arbitrary: n) simp_all

lemma average_eq:
  "dataArray \<noteq> [] \<Longrightarrow>
   average dataArray = Inr (real (sum_list (map unat dataArray)) / real (length dataArray))"
  by (cases dataArray) (simp_all add: average_def foldl_unat)

lemmas eval_defs =
  App_init_def handler_defs onmessage_defs step_def render_def lipSyncEffect_def
  callLipSync_def updateLipSync_def animationFrame_def average_eq sum_list_replicate
  audioChunk_def transcriptDelta_def turnCompleteEvent_def interruption_def chunks_def
  chunkEvents_def deltas_def newSlots_def scheduledEnd_def duration_def isInterruption_def
  runsInterruption_def permissionDenied_def trim_def isWhiteSpace_def Let_def

section \<open>The playback scheduler\<close>


text \<open>
  The same order holds in every run in which no message carries an interruption, however
  the handlers, their continuations and the other events are interleaved: an event adds no
  slot and does not lower the playback clock, or it adds one slot that starts at the clock
  and leaves the clock at the end of that slot.
\<close>

lemma laterBranches_quiet:
  "\<not> interruptedOf m \<Longrightarrow>
   nextStartTime (laterBranches m st) = nextStartTime st \<and>
   started (laterBranches m st) = started st"
  by (simp add: laterBranches_def transcriptionBranch_def turnCompleteBranch_def
      interruptedBranch_def Let_def split: option.splits)

lemma step_slots:
  "\<not> isInterruption e \<Longrightarrow>
   (started (step e st) = started st \<and> nextStartTime st \<le> nextStartTime (step e st)) \<or>
   (\<exists>slot. started (step e st) = started st @ [slot] \<and>
           scheduledStart slot = nextStartTime st \<and>
           scheduledEnd slot = nextStartTime (step e st))"
proof (cases e)
  case (Msg m now)
  assume "\<not> isInterruption e"
  then have q: "\<not> interruptedOf m" using Msg by (simp add: isInterruption_def)
  show ?thesis
    using laterBranches_quiet [OF q]
    by (auto simp add: Msg step_def onmessage_def afterHandler_def Let_def split: sum.splits)
next
  case (Decoded m outcome)
  assume "\<not> isInterruption e"
  then have q: "\<not> interruptedOf m" using Decoded by (simp add: isInterruption_def)
  show ?thesis
  proof (cases "m \<in># suspended st")
    case False
    then show ?thesis by (simp add: Decoded step_def)
  next
    case True
    show ?thesis
    proof (cases outcome)
      case (Inl err)
      then show ?thesis using True by (simp add: Decoded step_def ondecoded_def afterHandler_def)
    next
      case (Inr b)
      then show ?thesis
        using True laterBranches_quiet [OF q]
        by (simp add: Decoded step_def ondecoded_def afterHandler_def Let_def scheduledEnd_def)
    qed
  qed
next
  case (Render d)
  then show ?thesis by (simp add: step_def step_frame_lipsync)
next
  case (Frame d)
  then show ?thesis by (simp add: step_def step_frame_lipsync)
qed (simp_all add: step_def handler_defs Let_def split: sum.splits)

lemma run_slots:
  "\<forall>e\<in>set es. \<not> isInterruption e \<Longrightarrow>
   \<exists>new. started (run es st) = started st @ new \<and>
         successively (\<lambda>a b. scheduledEnd a \<le> scheduledStart b) new \<and>
         (\<forall>s\<in>set new. nextStartTime st \<le> scheduledStart s) \<and>
         nextStartTime st \<le> nextStartTime (run es st)"
proof (induction es arbitrary: st)
  case Nil
  then show ?case by simp
next
  case (Cons e es)
  define st1 where "st1 = step e st"
  have q: "\<not> isInterruption e" and qs: "\<forall>e\<in>set es. \<not> isInterruption e"
    using Cons.prems by simp_all
  from Cons.IH [OF qs, of st1] obtain new where new:
    "started (run es st1) = started st1 @ new"
    "successively (\<lambda>a b. scheduledEnd a \<le> scheduledStart b) new"
    "\<forall>s\<in>set new. nextStartTime st1 \<le> scheduledStart s"
    "nextStartTime st1 \<le> nextStartTime (run es st1)"
    by blast
  have run: "run (e # es) st = run es st1" by (simp add: st1_def)
  from step_slots [OF q, of st] consider
    (same) "started st1 = started st" "nextStartTime st \<le> nextStartTime st1" |
    (slot) slot where "started st1 = started st @ [slot]"
      "scheduledStart slot = nextStartTime st" "scheduledEnd slot = nextStartTime st1"
    unfolding st1_def by blast
  then show ?case
  proof cases
    case same
    have "started (run (e # es) st) = started st @ new"
      using new(1) same(1) run by simp
    moreover have "\<forall>s\<in>set new. nextStartTime st \<le> scheduledStart s"
      using new(3) same(2) by fastforce
    moreover have "nextStartTime st \<le> nextStartTime (run (e # es) st)"
      using new(4) same(2) run by simp
    ultimately show ?thesis using new(2) by blast
  next
    case slot
    have le: "nextStartTime st \<le> nextStartTime st1"
      using duration_nonneg [of "slot_buffer slot"] slot(2,3) by (simp add: scheduledEnd_def)
    have "started (run (e # es) st) = started st @ slot # new"
      using new(1) slot(1) run by simp
    moreover have "successively (\<lambda>a b. scheduledEnd a \<le> scheduledStart b) (slot # new)"
      using new(2,3) slot(3) by (cases new) auto
    moreover have "\<forall>s\<in>set (slot # new). nextStartTime st \<le> scheduledStart s"
      using new(3) le slot(2) by fastforce
    moreover have "nextStartTime st \<le> nextStartTime (run (e # es) st)"
      using new(4) le run by simp
    ultimately show ?thesis by blast
  qed
qed




lemma laterBranches_next:
  "nextStartTime (laterBranches m st) = (if interruptedOf m then 0 else nextStartTime st)"
  by (simp add: laterBranches_def transcriptionBranch_def turnCompleteBranch_def
      interruptedBranch_def Let_def split: option.splits)

lemma step_next:
  "\<not> runsInterruption e st \<Longrightarrow> nextStartTime st \<le> nextStartTime (step e st)"
proof (cases e)
  case (Msg m now)
  assume "\<not> runsInterruption e st"
  then show ?thesis
    by (auto simp add: Msg step_def runsInterruption_def onmessage_def afterHandler_def
        laterBranches_next Let_def split: sum.splits if_splits)
next
  case (Decoded m outcome)
  assume "\<not> runsInterruption e st"
  then show ?thesis
    using duration_nonneg
    by (auto simp add: Decoded step_def runsInterruption_def ondecoded_def afterHandler_def
        laterBranches_next Let_def split: sum.splits if_splits)
next
  case (Render d)
  then show ?thesis by (simp add: step_def step_frame_lipsync)
next
  case (Frame d)
  then show ?thesis by (simp add: step_def step_frame_lipsync)
qed (simp_all add: step_def handler_defs Let_def split: sum.splits)

lemma step_reset: "runsInterruption e st \<Longrightarrow> nextStartTime (step e st) = 0"
  by (cases e)
    (auto simp add: step_def runsInterruption_def onmessage_def ondecoded_def afterHandler_def
      laterBranches_next Let_def split: sum.splits if_splits)

lemma runsInterruption_isInterruption: "runsInterruption e st \<Longrightarrow> isInterruption e"
  by (cases e) (simp_all add: runsInterruption_def isInterruption_def)

lemma run_next:
  "\<forall>e\<in>set es. \<not> isInterruption e \<Longrightarrow> nextStartTime st \<le> nextStartTime (run es st)"
  using run_slots [of es st] by blast

text \<open>
  Claim C5. No event but the handling of a message that carries an interruption makes the
  playback clock smaller, event by event and over a whole run; more precisely, only an
  event that runs the interruption branch does, and that event sets the clock to 0.
\<close>

theorem nextStartTime_monotone:
  "(\<not> isInterruption e \<longrightarrow> nextStartTime st \<le> nextStartTime (step e st)) \<and>
   (nextStartTime (step e st) < nextStartTime st \<longrightarrow> isInterruption e) \<and>
   (\<not> runsInterruption e st \<longrightarrow> nextStartTime st \<le> nextStartTime (step e st)) \<and>
   (nextStartTime (step e st) < nextStartTime st \<longrightarrow> runsInterruption e st) \<and>
   (runsInterruption e st \<longrightarrow> nextStartTime (step e st) = 0) \<and>
   ((\<forall>e\<in>set es. \<not> isInterruption e) \<longrightarrow> nextStartTime st \<le> nextStartTime (run es st))"
proof -
  have 3: "\<not> runsInterruption e st \<longrightarrow> nextStartTime st \<le> nextStartTime (step e st)"
    by (simp add: step_next)
  then have 4: "nextStartTime (step e st) < nextStartTime st \<longrightarrow> runsInterruption e st"
    by fastforce
  have 1: "\<not> isInterruption e \<longrightarrow> nextStartTime st \<le> nextStartTime (step e st)"
    using 3 runsInterruption_isInterruption by blast
  then have 2: "nextStartTime (step e st) < nextStartTime st \<longrightarrow> isInterruption e"
    by fastforce
  have 5: "runsInterruption e st \<longrightarrow> nextStartTime (step e st) = 0"
    by (simp add: step_reset)
  have 6: "(\<forall>e\<in>set es. \<not> isInterruption e) \<longrightarrow> nextStartTime st \<le> nextStartTime (run es st)"
    by (simp add: run_next)
  from 1 2 3 4 5 6 show ?thesis by blast
qed

section \<open>Interruption\<close>

text \<open>
  What the interruption branch does whenever it runs: no source stays active, every
  source that was active has been stopped, the playback clock is 0 and \<open>isSpeaking\<close> is
  false. It does not write the volume.
\<close>

lemma interruption_resets:
  "runsInterruption e st \<Longrightarrow>
   sources (step e st) = {} \<and> nextStartTime (step e st) = 0 \<and> \<not> isSpeaking (step e st) \<and>
   sources st \<subseteq> stopped (step e st) \<and> audioVolume (step e st) = audioVolume st"
  by (cases e)
    (auto simp add: step_def runsInterruption_def onmessage_def ondecoded_def afterHandler_def
      laterBranches_def transcriptionBranch_def turnCompleteBranch_def interruptedBranch_def
      Let_def split: sum.splits if_splits option.splits)

text \<open>
  Claim C4 says that after an interruption the speaking signal is \<open>isSpeaking = false\<close>
  with volume 0. The component does not get there. A session opened in text mode plays a
  chunk; the render that follows starts the lip-sync callback, which samples an average of
  50 and sets the volume to 1/2; then the interruption arrives. The active set is empty,
  the playback clock is 0 and \<open>isSpeaking\<close> is false, but the volume is still 1/2, and it
  still is after the render that follows: that render's effect does not call
  \<^verbatim>\<open>updateLipSync\<close>, because \<open>isSpeaking\<close> is false.
\<close>

theorem interruption_leaves_volume:
  "feasible [Connect True (Inr ()), Open False, Render [],
     Msg (audioChunk ''UklGRg=='') 0,
     Decoded (audioChunk ''UklGRg=='') (Inr \<lparr>buf_length = 12000, buf_sampleRate = 24000\<rparr>),
     Render (replicate 32 50), Msg interruption (1 / 10), Render []] App_init \<and>
   audioVolume (run [Connect True (Inr ()), Open False, Render [],
     Msg (audioChunk ''UklGRg=='') 0,
     Decoded (audioChunk ''UklGRg=='') (Inr \<lparr>buf_length = 12000, buf_sampleRate = 24000\<rparr>),
     Render (replicate 32 50)] App_init) = 1 / 2 \<and>
   sources (run [Connect True (Inr ()), Open False, Render [],
     Msg (audioChunk ''UklGRg=='') 0,
     Decoded (audioChunk ''UklGRg=='') (Inr \<lparr>buf_length = 12000, buf_sampleRate = 24000\<rparr>),
     Render (replicate 32 50), Msg interruption (1 / 10)] App_init) = {} \<and>
   nextStartTime (run [Connect True (Inr ()), Open False, Render [],
     Msg (audioChunk ''UklGRg=='') 0,
     Decoded (audioChunk ''UklGRg=='') (Inr \<lparr>buf_length = 12000, buf_sampleRate = 24000\<rparr>),
     Render (replicate 32 50), Msg interruption (1 / 10)] App_init) = 0 \<and>
   isSpeaking (run [Connect True (Inr ()), Open False, Render [],
     Msg (audioChunk ''UklGRg=='') 0,
     Decoded (audioChunk ''UklGRg=='') (Inr \<lparr>buf_length = 12000, buf_sampleRate = 24000\<rparr>),
     Render (replicate 32 50), Msg interruption (1 / 10)] App_init) = False \<and>
   audioVolume (run [Connect True (Inr ()), Open False, Render [],
     Msg (audioChunk ''UklGRg=='') 0,
     Decoded (audioChunk ''UklGRg=='') (Inr \<lparr>buf_length = 12000, buf_sampleRate = 24000\<rparr>),
     Render (replicate 32 50), Msg interruption (1 / 10)] App_init) = 1 / 2 \<and>
   audioVolume (run [Connect True (Inr ()), Open False, Render [],
     Msg (audioChunk ''UklGRg=='') 0,
     Decoded (audioChunk ''UklGRg=='') (Inr \<lparr>buf_length = 12000, buf_sampleRate = 24000\<rparr>),
     Render (replicate 32 50), Msg interruption (1 / 10), Render []] App_init) = 1 / 2"
  by (simp add: eval_defs)

lemma laterBranches_transcript:
  "outputTranscriptionOf m = None \<Longrightarrow> \<not> turnCompleteOf m \<Longrightarrow>
   currentOutputTranscription (laterBranches m st) = currentOutputTranscription st \<and>
   messages (laterBranches m st) = messages st"
  by (simp add: laterBranches_def transcriptionBranch_def turnCompleteBranch_def
      interruptedBranch_def)

lemma onmessage_turnComplete:
  "afterHandler st (onmessage turnCompleteEvent now st) =
     st\<lparr>messages := messages st @
           (if currentOutputTranscription st = [] then []
            else [\<lparr>role = Zulim, msg_text = currentOutputTranscription st\<rparr>]),
        currentOutputTranscription := []\<rparr>"
  by (simp add: onmessage_defs turnCompleteEvent_def Let_def)

text \<open>
  Claim C10. A message that carries an interruption, and neither a transcription nor a
  turn-complete mark, leaves the transcript buffer and the message log as they were,
  whether its handler runs through at once, throws on its first line, waits for a
  decoding, or resumes after one; a turn-complete that follows it emits the buffered text,
  if there is any.
\<close>

theorem interruption_keeps_transcript:
  assumes "interruptedOf m" and "outputTranscriptionOf m = None" and "\<not> turnCompleteOf m"
  shows "currentOutputTranscription (step (Msg m now) st) = currentOutputTranscription st \<and>
         messages (step (Msg m now) st) = messages st \<and>
         currentOutputTranscription (step (Decoded m outcome) st) =
           currentOutputTranscription st \<and>
         messages (step (Decoded m outcome) st) = messages st \<and>
         messages (step (Msg turnCompleteEvent now') (step (Msg m now) st)) =
           messages st @
             (if currentOutputTranscription st = [] then []
              else [\<lparr>role = Zulim, msg_text = currentOutputTranscription st\<rparr>]) \<and>
         messages (step (Msg turnCompleteEvent now')
             (step (Decoded m outcome) (step (Msg m now) st))) =
           messages st @
             (if currentOutputTranscription st = [] then []
              else [\<lparr>role = Zulim, msg_text = currentOutputTranscription st\<rparr>])"
proof -
  have msg: "currentOutputTranscription (step (Msg m now) st') = currentOutputTranscription st' \<and>
      messages (step (Msg m now) st') = messages st'" for st'
    using laterBranches_transcript [OF assms(2,3)]
    by (auto simp add: step_def onmessage_def afterHandler_def Let_def split: sum.splits)
  have dec: "currentOutputTranscription (step (Decoded m outcome) st') =
        currentOutputTranscription st' \<and>
      messages (step (Decoded m outcome) st') = messages st'" for st'
    using laterBranches_transcript [OF assms(2,3)]
    by (auto simp add: step_def ondecoded_def afterHandler_def Let_def split: sum.splits)
  have tc: "messages (step (Msg turnCompleteEvent now') st') =
      messages st' @
        (if currentOutputTranscription st' = [] then []
         else [\<lparr>role = Zulim, msg_text = currentOutputTranscription st'\<rparr>])" for st'
    by (simp add: step_def onmessage_turnComplete)
  show ?thesis
    by (simp only: msg dec tc simp_thms)
qed

section \<open>The transcript aggregator\<close>

text \<open>
  Deltas that carry a text are appended in arrival order, and the turn-complete after them
  emits the buffer as one message of the agent when it is not empty, and empties it.
\<close>

lemma onmessage_delta:
  "afterHandler st (onmessage (transcriptDelta (Some t)) now st) =
     st\<lparr>currentOutputTranscription := currentOutputTranscription st @ t\<rparr>"
  by (simp add: onmessage_defs transcriptDelta_def)

lemma run_deltas:
  "run (deltas ds) st =
     st\<lparr>currentOutputTranscription := currentOutputTranscription st @ concat (map fst ds)\<rparr>"
  by (induction ds arbitrary: st) (simp_all add: deltas_def step_def onmessage_delta)

lemma deltas_then_turnComplete:
  "messages (run (deltas ds @ [Msg turnCompleteEvent now]) st) =
     messages st @
       (if currentOutputTranscription st @ concat (map fst ds) = [] then []
        else [\<lparr>role = Zulim, msg_text = currentOutputTranscription st @ concat (map fst ds)\<rparr>]) \<and>
   currentOutputTranscription (run (deltas ds @ [Msg turnCompleteEvent now]) st) = []"
  by (simp add: run_append run_deltas step_def onmessage_turnComplete)

text \<open>
  Claim C6 says that the message emitted on turn-complete holds the texts of the deltas,
  and that none is emitted when they are empty. The component does not do so for a
  transcription that has no text: the branch tests the transcription object and appends
  its \<^verbatim>\<open>text\<close>, so the buffer receives the letters \<^verbatim>\<open>undefined\<close>, and the
  turn-complete emits them as a message of the agent.
\<close>

theorem transcript_without_text:
  "feasible [Connect True (Inr ()), Open False, Msg (transcriptDelta None) 0,
     Msg turnCompleteEvent 1] App_init \<and>
   currentOutputTranscription (run [Connect True (Inr ()), Open False,
     Msg (transcriptDelta None) 0] App_init) = ''undefined'' \<and>
   messages (run [Connect True (Inr ()), Open False, Msg (transcriptDelta None) 0,
     Msg turnCompleteEvent 1] App_init) = [\<lparr>role = Zulim, msg_text = ''undefined''\<rparr>]"
  by (simp add: eval_defs)

section \<open>The amplitude analyser\<close>

text \<open>
  What a call of \<^verbatim>\<open>updateLipSync\<close> that closes over a true \<^verbatim>\<open>isSpeaking\<close> emits for
  a non-empty array of magnitudes: \<open>min 1 (average / 100)\<close>, between 0 and 1, 0 for an
  all-zero signal and exactly 1 once the average reaches 100.
\<close>

lemma updateLipSync_volume:
  assumes "analyser st" and "dataArray \<noteq> []"
  shows "updateLipSync True dataArray st =
           Inr (st\<lparr>audioVolume :=
                  min 1 (real (sum_list (map unat dataArray)) / real (length dataArray) / 100)\<rparr>,
                True) \<and>
         0 \<le> min 1 (real (sum_list (map unat dataArray)) / real (length dataArray) / 100) \<and>
         min 1 (real (sum_list (map unat dataArray)) / real (length dataArray) / 100) \<le> 1 \<and>
         ((\<forall>b\<in>set dataArray. b = 0) \<longrightarrow>
            min 1 (real (sum_list (map unat dataArray)) / real (length dataArray) / 100) = 0) \<and>
         (100 \<le> real (sum_list (map unat dataArray)) / real (length dataArray) \<longrightarrow>
            min 1 (real (sum_list (map unat dataArray)) / real (length dataArray) / 100) = 1)"
proof -
  let ?avg = "real (sum_list (map unat dataArray)) / real (length dataArray)"
  have 1: "updateLipSync True dataArray st = Inr (st\<lparr>audioVolume := min 1 (?avg / 100)\<rparr>, True)"
    using assms by (simp add: updateLipSync_def average_eq)
  have 2: "0 \<le> min 1 (?avg / 100)" "min 1 (?avg / 100) \<le> 1"
    by simp_all
  have zero: "(\<forall>b\<in>set dataArray. b = 0) \<Longrightarrow> sum_list (map unat dataArray) = 0"
    by (induction dataArray) simp_all
  have 3: "(\<forall>b\<in>set dataArray. b = 0) \<longrightarrow> min 1 (?avg / 100) = 0"
  proof
    assume "\<forall>b\<in>set dataArray. b = 0"
    then have z: "sum_list (map unat dataArray) = 0" by (rule zero)
    show "min 1 (?avg / 100) = 0" unfolding z by simp
  qed
  have 4: "100 \<le> ?avg \<longrightarrow> min 1 (?avg / 100) = 1"
    by (simp add: min_def)
  from 1 2 3 4 show ?thesis by blast
qed

text \<open>
  Every callback that waits for an animation frame closes over a true \<^verbatim>\<open>isSpeaking\<close>,
  in every state the component reaches: the branch of \<^verbatim>\<open>updateLipSync\<close> that sets the
  volume to 0 and stops is never entered from an animation frame, and the effect calls
  \<^verbatim>\<open>updateLipSync\<close> only while speaking.
\<close>

lemma callLipSync_armed:
  "list_all (\<lambda>c. c) (armed st) \<Longrightarrow> list_all (\<lambda>c. c) (armed (callLipSync speaking d st))"
  by (auto simp add: callLipSync_def updateLipSync_def split: sum.splits if_splits)

lemma foldl_callLipSync_armed:
  "list_all (\<lambda>c. c) (armed st) \<Longrightarrow>
   list_all (\<lambda>c. c) (armed (foldl (\<lambda>s speaking. callLipSync speaking d s) st cs))"
  by (induction cs arbitrary: st) (simp_all add: callLipSync_armed)

lemma step_armed:
  "list_all (\<lambda>c. c) (armed st) \<Longrightarrow> list_all (\<lambda>c. c) (armed (step e st))"
proof (cases e)
  case (Msg m now)
  then show "list_all (\<lambda>c. c) (armed st) \<Longrightarrow> ?thesis"
    by (auto simp add: step_def onmessage_defs Let_def split: sum.splits option.splits list.splits)
next
  case (Decoded m outcome)
  then show "list_all (\<lambda>c. c) (armed st) \<Longrightarrow> ?thesis"
    by (auto simp add: step_def onmessage_defs Let_def split: sum.splits option.splits)
next
  case (Render d)
  then show "list_all (\<lambda>c. c) (armed st) \<Longrightarrow> ?thesis"
    by (simp add: step_def render_def lipSyncEffect_def Let_def callLipSync_armed)
next
  case (Frame d)
  then show "list_all (\<lambda>c. c) (armed st) \<Longrightarrow> ?thesis"
    by (simp add: step_def animationFrame_def foldl_callLipSync_armed)
qed (auto simp add: step_def handler_defs Let_def split: sum.splits)

lemma run_armed: "list_all (\<lambda>c. c) (armed st) \<Longrightarrow> list_all (\<lambda>c. c) (armed (run es st))"
  by (induction es arbitrary: st) (simp_all add: step_armed)

lemma armed_all_speaking: "list_all (\<lambda>c. c) (armed (run es App_init))"
  by (rule run_armed) (simp add: App_init_def)

text \<open>
  Claim C7 says that while not speaking the emitted volume is exactly 0 and sampling
  stops. The component does not do so. A chunk is played and the lip-sync callback starts
  (average 80, volume 4/5); the source ends, so \<open>isSpeaking\<close> becomes false; the render
  that follows leaves the volume at 4/5 and the callback waiting; at the next animation
  frame the callback, which closes over the true \<^verbatim>\<open>isSpeaking\<close> of its render, samples
  again (average 58, volume 29/50) and waits for the frame after.
\<close>

theorem lipsync_keeps_sampling:
  "feasible [Connect True (Inr ()), Open False, Render [],
     Msg (audioChunk ''UklGRg=='') 0,
     Decoded (audioChunk ''UklGRg=='') (Inr \<lparr>buf_length = 12000, buf_sampleRate = 24000\<rparr>),
     Render (replicate 32 80), Ended 0, Render [], Frame (replicate 32 58)] App_init \<and>
   isSpeaking (run [Connect True (Inr ()), Open False, Render [],
     Msg (audioChunk ''UklGRg=='') 0,
     Decoded (audioChunk ''UklGRg=='') (Inr \<lparr>buf_length = 12000, buf_sampleRate = 24000\<rparr>),
     Render (replicate 32 80), Ended 0, Render []] App_init) = False \<and>
   audioVolume (run [Connect True (Inr ()), Open False, Render [],
     Msg (audioChunk ''UklGRg=='') 0,
     Decoded (audioChunk ''UklGRg=='') (Inr \<lparr>buf_length = 12000, buf_sampleRate = 24000\<rparr>),
     Render (replicate 32 80), Ended 0, Render []] App_init) = 4 / 5 \<and>
   armed (run [Connect True (Inr ()), Open False, Render [],
     Msg (audioChunk ''UklGRg=='') 0,
     Decoded (audioChunk ''UklGRg=='') (Inr \<lparr>buf_length = 12000, buf_sampleRate = 24000\<rparr>),
     Render (replicate 32 80), Ended 0, Render []] App_init) = [True] \<and>
   isSpeaking (run [Connect True (Inr ()), Open False, Render [],
     Msg (audioChunk ''UklGRg=='') 0,
     Decoded (audioChunk ''UklGRg=='') (Inr \<lparr>buf_length = 12000, buf_sampleRate = 24000\<rparr>),
     Render (replicate 32 80), Ended 0, Render [], Frame (replicate 32 58)] App_init) = False \<and>
   audioVolume (run [Connect True (Inr ()), Open False, Render [],
     Msg (audioChunk ''UklGRg=='') 0,
     Decoded (audioChunk ''UklGRg=='') (Inr \<lparr>buf_length = 12000, buf_sampleRate = 24000\<rparr>),
     Render (replicate 32 80), Ended 0, Render [], Frame (replicate 32 58)] App_init) = 29 / 50 \<and>
   armed (run [Connect True (Inr ()), Open False, Render [],
     Msg (audioChunk ''UklGRg=='') 0,
     Decoded (audioChunk ''UklGRg=='') (Inr \<lparr>buf_length = 12000, buf_sampleRate = 24000\<rparr>),
     Render (replicate 32 80), Ended 0, Render [], Frame (replicate 32 58)] App_init) = [True]"
  by (simp add: eval_defs)

section \<open>The speaking flag\<close>

text \<open>
  Claim C9 says that \<open>isSpeaking\<close> holds exactly when a source is active. The component
  breaks this in both directions. An interruption that is handled while the handler of a
  chunk waits for its decoding clears the flag, and the handler then starts its source and
  adds it to the active set: a source is active and \<open>isSpeaking\<close> is false. A decoding
  that fails ends the handler after it has set the flag and before it adds a source:
  \<open>isSpeaking\<close> is true and no source is active.
\<close>

theorem isSpeaking_out_of_step:
  "feasible [Connect True (Inr ()), Open False, Render [], Msg (audioChunk ''UklGRg=='') 0,
     Msg interruption (1 / 10),
     Decoded (audioChunk ''UklGRg=='') (Inr \<lparr>buf_length = 12000, buf_sampleRate = 24000\<rparr>)]
     App_init \<and>
   isSpeaking (run [Connect True (Inr ()), Open False, Render [],
     Msg (audioChunk ''UklGRg=='') 0, Msg interruption (1 / 10),
     Decoded (audioChunk ''UklGRg=='') (Inr \<lparr>buf_length = 12000, buf_sampleRate = 24000\<rparr>)]
     App_init) = False \<and>
   sources (run [Connect True (Inr ()), Open False, Render [],
     Msg (audioChunk ''UklGRg=='') 0, Msg interruption (1 / 10),
     Decoded (audioChunk ''UklGRg=='') (Inr \<lparr>buf_length = 12000, buf_sampleRate = 24000\<rparr>)]
     App_init) = {0} \<and>
   feasible [Connect True (Inr ()), Open False, Render [], Msg (audioChunk ''UklGRg=='') 0,
     Decoded (audioChunk ''UklGRg=='')
       (Inl \<lparr>err_name = ''EncodingError'', err_message = None\<rparr>)] App_init \<and>
   isSpeaking (run [Connect True (Inr ()), Open False, Render [],
     Msg (audioChunk ''UklGRg=='') 0,
     Decoded (audioChunk ''UklGRg=='')
       (Inl \<lparr>err_name = ''EncodingError'', err_message = None\<rparr>)] App_init) = True \<and>
   sources (run [Connect True (Inr ()), Open False, Render [],
     Msg (audioChunk ''UklGRg=='') 0,
     Decoded (audioChunk ''UklGRg=='')
       (Inl \<lparr>err_name = ''EncodingError'', err_message = None\<rparr>)] App_init) = {}"
  by (simp add: eval_defs)

section \<open>Sending text\<close>





section \<open>Microphone denial\<close>

text \<open>
  Claim C1, as the code has it. A connect attempt that asks for the microphone and is
  refused it with a permission-denied error stops there: the status is \<open>ERROR\<close> with the
  message that offers to go on by text, the microphone flag is false, the live session is
  not opened and no session handle is stored by it, so that sending text stays without
  effect when none was stored before. The text-only attempt that follows (the button of
  the error panel) opens the session with the microphone flag false, and its \<^verbatim>\<open>onopen\<close>
  makes the status \<open>CONNECTED\<close>. A refusal for any other reason does not stop the
  attempt: the session is opened without a stream, with the microphone flag false.
\<close>

theorem mic_denied_aborts:
  assumes "permissionDenied micErr"
  shows "status (fst (connectToZulim False (Inl micErr) st)) = ERROR \<and>
         errorMessage (fst (connectToZulim False (Inl micErr) st)) = Some MIC_DENIED_MESSAGE \<and>
         \<not> isMicEnabled (fst (connectToZulim False (Inl micErr) st)) \<and>
         snd (connectToZulim False (Inl micErr) st) = None \<and>
         sessionRef (fst (connectToZulim False (Inl micErr) st)) = sessionRef st \<and>
         (\<not> sessionRef st \<longrightarrow>
            handleSendText (fst (connectToZulim False (Inl micErr) st)) =
              fst (connectToZulim False (Inl micErr) st)) \<and>
         snd (connectToZulim True g (fst (connectToZulim False (Inl micErr) st))) = Some False \<and>
         \<not> isMicEnabled (onopen False
             (fst (connectToZulim True g (fst (connectToZulim False (Inl micErr) st))))) \<and>
         status (onopen False
             (fst (connectToZulim True g (fst (connectToZulim False (Inl micErr) st))))) = CONNECTED \<and>
         (\<not> permissionDenied other \<longrightarrow>
            snd (connectToZulim False (Inl other) st) = Some False \<and>
            \<not> isMicEnabled (onopen False (fst (connectToZulim False (Inl other) st))) \<and>
            status (onopen False (fst (connectToZulim False (Inl other) st))) = CONNECTED)"
  using assms
  by (simp add: connectToZulim_def initializeAudio_def onopen_def handleSendText_def Let_def)

section \<open>The theorems at concrete inputs\<close>

text \<open>
  The microphone is refused with \<^verbatim>\<open>NotAllowedError\<close>: the attempt ends in \<open>ERROR\<close>;
  the text-only attempt after it, and an attempt whose microphone request fails with
  \<^verbatim>\<open>NotFoundError\<close>, reach \<open>CONNECTED\<close>.
\<close>

theorem mic_denied_aborts_witness:
  "permissionDenied \<lparr>err_name = ''NotAllowedError'', err_message = Some ''Permission denied''\<rparr> \<and>
   status (fst (connectToZulim False
     (Inl \<lparr>err_name = ''NotAllowedError'', err_message = Some ''Permission denied''\<rparr>)
     App_init)) = ERROR \<and>
   snd (connectToZulim False
     (Inl \<lparr>err_name = ''NotAllowedError'', err_message = Some ''Permission denied''\<rparr>)
     App_init) = None \<and>
   status (onopen False (fst (connectToZulim True (Inr ())
     (fst (connectToZulim False
       (Inl \<lparr>err_name = ''NotAllowedError'', err_message = Some ''Permission denied''\<rparr>)
       App_init))))) = CONNECTED \<and>
   \<not> permissionDenied
     \<lparr>err_name = ''NotFoundError'', err_message = Some ''Requested device not found''\<rparr> \<and>
   status (onopen False (fst (connectToZulim False
     (Inl \<lparr>err_name = ''NotFoundError'', err_message = Some ''Requested device not found''\<rparr>)
     App_init))) = CONNECTED"
proof -
  have h: "permissionDenied
      \<lparr>err_name = ''NotAllowedError'', err_message = Some ''Permission denied''\<rparr>"
    by (simp add: permissionDenied_def)
  have h': "\<not> permissionDenied
      \<lparr>err_name = ''NotFoundError'', err_message = Some ''Requested device not found''\<rparr>"
    by (simp add: permissionDenied_def)
  from mic_denied_aborts [OF h, where st = App_init and g = "Inr ()" and
      other = "\<lparr>err_name = ''NotFoundError'', err_message = Some ''Requested device not found''\<rparr>"]
    h h'
  show ?thesis by simp
qed

text \<open>
  The claim C1 as the specification states it fails on the first attempt of a fresh
  component: the status is \<open>ERROR\<close>, the live session was never opened, and no text is
  sent afterwards.
\<close>

theorem mic_denied_counterexample:
  "status (run [Connect False
       (Inl \<lparr>err_name = ''NotAllowedError'', err_message = Some ''Permission denied''\<rparr>)]
     App_init) = ERROR \<and>
   snd (connectToZulim False
       (Inl \<lparr>err_name = ''NotAllowedError'', err_message = Some ''Permission denied''\<rparr>)
     App_init) = None \<and>
   sent (run [Connect False
       (Inl \<lparr>err_name = ''NotAllowedError'', err_message = Some ''Permission denied''\<rparr>),
       Input ''oi'', Submit] App_init) = []"
  by (simp add: eval_defs)



text \<open>A chunk, whose handler resumes after its decoding, and an interruption after it.\<close>

theorem nextStartTime_monotone_witness:
  "\<not> isInterruption (Decoded (audioChunk ''UklGRg=='')
       (Inr \<lparr>buf_length = 12000, buf_sampleRate = 24000\<rparr>)) \<and>
   nextStartTime (step (Msg (audioChunk ''UklGRg=='') 3) (initializeAudio App_init))
     \<le> nextStartTime (step (Decoded (audioChunk ''UklGRg=='')
            (Inr \<lparr>buf_length = 12000, buf_sampleRate = 24000\<rparr>))
          (step (Msg (audioChunk ''UklGRg=='') 3) (initializeAudio App_init))) \<and>
   runsInterruption (Msg interruption 4)
     (run (chunks [(''UklGRg=='', \<lparr>buf_length = 12000, buf_sampleRate = 24000\<rparr>, 3)])
        (initializeAudio App_init)) \<and>
   nextStartTime (run (chunks [(''UklGRg=='', \<lparr>buf_length = 12000, buf_sampleRate = 24000\<rparr>, 3)])
        (initializeAudio App_init)) = 7 / 2 \<and>
   nextStartTime (step (Msg interruption 4)
     (run (chunks [(''UklGRg=='', \<lparr>buf_length = 12000, buf_sampleRate = 24000\<rparr>, 3)])
        (initializeAudio App_init))) = 0"
proof -
  have h: "\<not> isInterruption (Decoded (audioChunk ''UklGRg=='')
       (Inr \<lparr>buf_length = 12000, buf_sampleRate = 24000\<rparr>))"
    by (simp add: isInterruption_def interruptedOf_def audioChunk_def)
  have h': "runsInterruption (Msg interruption 4)
     (run (chunks [(''UklGRg=='', \<lparr>buf_length = 12000, buf_sampleRate = 24000\<rparr>, 3)])
        (initializeAudio App_init))"
    by (simp add: runsInterruption_def interruptedOf_def base64Audio_def truthy_def
        interruption_def)
  have v: "nextStartTime
      (run (chunks [(''UklGRg=='', \<lparr>buf_length = 12000, buf_sampleRate = 24000\<rparr>, 3)])
        (initializeAudio App_init)) = 7 / 2"
    by (simp add: eval_defs)
  from nextStartTime_monotone
    [of "Decoded (audioChunk ''UklGRg=='') (Inr \<lparr>buf_length = 12000, buf_sampleRate = 24000\<rparr>)"
        "step (Msg (audioChunk ''UklGRg=='') 3) (initializeAudio App_init)" "[]"]
    nextStartTime_monotone
    [of "Msg interruption 4"
        "run (chunks [(''UklGRg=='', \<lparr>buf_length = 12000, buf_sampleRate = 24000\<rparr>, 3)])
           (initializeAudio App_init)" "[]"]
    h h' v
  show ?thesis by simp
qed



text \<open>An interruption after a delta, and the turn-complete after both.\<close>

theorem interruption_keeps_transcript_witness:
  "interruptedOf interruption \<and> outputTranscriptionOf interruption = None \<and>
   \<not> turnCompleteOf interruption \<and>
   currentOutputTranscription (step (Msg interruption 2)
     (step (Msg (transcriptDelta (Some ''Sat'')) 1) App_init)) = ''Sat'' \<and>
   messages (step (Msg interruption 2)
     (step (Msg (transcriptDelta (Some ''Sat'')) 1) App_init)) = [] \<and>
   messages (step (Msg turnCompleteEvent 3)
     (step (Msg interruption 2) (step (Msg (transcriptDelta (Some ''Sat'')) 1) App_init))) =
     [\<lparr>role = Zulim, msg_text = ''Sat''\<rparr>]"
proof -
  have h: "interruptedOf interruption" "outputTranscriptionOf interruption = None"
    "\<not> turnCompleteOf interruption"
    by (simp_all add: interruption_def interruptedOf_def outputTranscriptionOf_def
        turnCompleteOf_def)
  have b: "currentOutputTranscription (step (Msg (transcriptDelta (Some ''Sat'')) 1) App_init)
      = ''Sat''"
    "messages (step (Msg (transcriptDelta (Some ''Sat'')) 1) App_init) = []"
    by (simp_all add: eval_defs)
  from interruption_keeps_transcript
      [OF h, of 2 "step (Msg (transcriptDelta (Some ''Sat'')) 1) App_init"
          "Inr \<lparr>buf_length = 1, buf_sampleRate = 24000\<rparr>" 3]
    h b
  show ?thesis by simp
qed

end
